theory Spec2Isabelle
  imports Main "HOL-Library.Word"
begin

section \<open>The OTA session of BLEOtaUpdate\<close>

text \<open>
  A shallow embedding of the transfer logic of \<^verbatim>\<open>BLEOtaUpdate.cpp\<close>: the members of the
  class that hold the transfer (\<^verbatim>\<open>otaInProgress\<close>, \<^verbatim>\<open>otaFileSize\<close>, \<^verbatim>\<open>otaReceived\<close>,
  \<^verbatim>\<open>otaStatus\<close>, \<^verbatim>\<open>clientConnected\<close>) and the methods that change them
  (\<^verbatim>\<open>handleOtaWrite\<close>, \<^verbatim>\<open>abortUpdate\<close>, \<^verbatim>\<open>onClientDisconnect\<close>, \<^verbatim>\<open>setOtaStatus\<close>,
  \<^verbatim>\<open>updateProgress\<close>, \<^verbatim>\<open>getUpdatePercentage\<close>).

  The platform object \<^verbatim>\<open>Update\<close> (the flash writer) is not part of the repository. It is
  a parameter of the model: its answers are functions of the calls it has received so far,
  and every call made to it is appended to a log kept in the session.
\<close>

subsection \<open>Data\<close>

type_synonym byte = "8 word"
type_synonym u8 = "8 word"
type_synonym u32 = "32 word"

text \<open>\<^verbatim>\<open>enum class OtaStatus\<close> of the header.\<close>

datatype OtaStatus = IDLE | RECEIVING | COMPLETED | ERROR | ABORTED

text \<open>The calls \<^verbatim>\<open>Update.begin(size)\<close>, \<^verbatim>\<open>Update.write(data, length)\<close> (the bytes
  handed over) and \<^verbatim>\<open>Update.end(commit)\<close>.\<close>

datatype fw_call = FwBegin u32 | FwWrite "byte list" | FwEnd bool

text \<open>The flash writer: what each operation returns, given the calls made before it.
  \<^verbatim>\<open>Update.write\<close> returns a \<^verbatim>\<open>size_t\<close> count.\<close>

record flash_writer =
  upd_begin :: "fw_call list \<Rightarrow> u32 \<Rightarrow> bool"
  upd_write :: "fw_call list \<Rightarrow> byte list \<Rightarrow> nat"
  upd_end :: "fw_call list \<Rightarrow> bool \<Rightarrow> bool"

text \<open>
  The session. The first five fields are the members of the class. The logs record what
  the methods do to the outside: \<open>flashLog\<close> the calls to \<^verbatim>\<open>Update\<close>, \<open>statusLog\<close>
  the arguments of \<^verbatim>\<open>setOtaStatus\<close> (handed to the status callback and printed),
  \<open>progressLog\<close> the arguments of the progress callback, \<open>connLog\<close> those of the
  connection callback. \<open>restarted\<close> is set by \<^verbatim>\<open>ESP.restart()\<close>: the chip reboots and
  the session ends there. The text sent on the status characteristic
  (\<^verbatim>\<open>sendStatus\<close>, \<^verbatim>\<open>sendProgress\<close>) and the serial output are left out.
\<close>

record session =
  otaInProgress :: bool
  otaFileSize :: u32
  otaReceived :: u32
  otaStatus :: OtaStatus
  clientConnected :: bool
  flashLog :: "fw_call list"
  statusLog :: "(OtaStatus \<times> string) list"
  progressLog :: "(u32 \<times> u32 \<times> u8) list"
  connLog :: "bool list"
  restarted :: bool

text \<open>The state the constructor leaves.\<close>

definition initial_session :: session where
  "initial_session =
     \<lparr>otaInProgress = False, otaFileSize = 0, otaReceived = 0, otaStatus = IDLE,
      clientConnected = False, flashLog = [], statusLog = [], progressLog = [],
      connLog = [], restarted = False\<rparr>"

subsection \<open>Frames and markers\<close>

definition bytes_of :: "string \<Rightarrow> byte list" where
  "bytes_of cs = map of_char cs"

definition OTA_CMD_OPEN :: "byte list" where
  "OTA_CMD_OPEN = bytes_of ''OPEN''"

definition OTA_CMD_DONE :: "byte list" where
  "OTA_CMD_DONE = bytes_of ''DONE''"

definition OTA_CMD_ABORT :: "byte list" where
  "OTA_CMD_ABORT = bytes_of ''ABORT''"

text \<open>
  \<^verbatim>\<open>std::string value = pCharacteristic->getValue().c_str();\<close>
  The characteristic's value is converted to a \<^verbatim>\<open>const char*\<close> and a \<^verbatim>\<open>std::string\<close>
  is built from that pointer: the string ends before the first zero byte.
\<close>

definition c_str :: "byte list \<Rightarrow> byte list" where
  "c_str raw = takeWhile (\<lambda>b. b \<noteq> 0) raw"

text \<open>\<^verbatim>\<open>memcpy(&otaFileSize, data, 4)\<close> on the little-endian target; it is only called
  on four bytes.\<close>

fun memcpy_u32 :: "byte list \<Rightarrow> u32" where
  "memcpy_u32 (b0 # b1 # b2 # b3 # rest) =
     of_nat (unat b0 + 256 * unat b1 + 65536 * unat b2 + 16777216 * unat b3)"
| "memcpy_u32 _ = 0"

subsection \<open>Methods\<close>

definition setOtaStatus :: "OtaStatus \<Rightarrow> string \<Rightarrow> session \<Rightarrow> session" where
  "setOtaStatus status message s =
     s\<lparr>otaStatus := status, statusLog := statusLog s @ [(status, message)]\<rparr>"

text \<open>\<^verbatim>\<open>uint8_t getUpdatePercentage()\<close>: the product and the quotient are 32-bit
  unsigned, the result is cut to 8 bits.\<close>

definition getUpdatePercentage :: "session \<Rightarrow> u8" where
  "getUpdatePercentage s =
     (if otaFileSize s = 0 then 0
      else ucast ((otaReceived s * 100) div otaFileSize s))"

definition updateProgress :: "session \<Rightarrow> session" where
  "updateProgress s =
     s\<lparr>progressLog := progressLog s @ [(otaReceived s, otaFileSize s, getUpdatePercentage s)]\<rparr>"

text \<open>\<^verbatim>\<open>abortUpdate\<close>; the result of \<^verbatim>\<open>Update.end(false)\<close> is not looked at.\<close>

definition abortUpdate :: "session \<Rightarrow> session" where
  "abortUpdate s =
     (if otaInProgress s then
        setOtaStatus ABORTED ''Update aborted by user''
          (s\<lparr>flashLog := flashLog s @ [FwEnd False],
             otaInProgress := False, otaFileSize := 0, otaReceived := 0\<rparr>)
      else s)"

text \<open>The block under \<^verbatim>\<open>// Handle file size (first 4 bytes after OPEN)\<close>.\<close>

definition handleFileSize :: "flash_writer \<Rightarrow> byte list \<Rightarrow> session \<Rightarrow> session" where
  "handleFileSize fw data s =
     (let sz = memcpy_u32 data;
          ok = upd_begin fw (flashLog s) sz;
          s1 = s\<lparr>otaFileSize := sz, flashLog := flashLog s @ [FwBegin sz]\<rparr>
      in if \<not> ok then (setOtaStatus ERROR ''Not enough space'' s1)\<lparr>otaInProgress := False\<rparr>
         else setOtaStatus RECEIVING ''Receiving firmware'' s1)"

text \<open>The block under \<^verbatim>\<open>// Handle DONE command\<close>. \<^verbatim>\<open>ESP.restart()\<close> reboots the
  chip and does not return, so the assignment after the conditional is not reached on
  the successful branch.\<close>

definition handleDone :: "flash_writer \<Rightarrow> session \<Rightarrow> session" where
  "handleDone fw s =
     (if otaReceived s \<noteq> otaFileSize s then
        (setOtaStatus ERROR ''Size mismatch'' s)
          \<lparr>flashLog := flashLog s @ [FwEnd False], otaInProgress := False\<rparr>
      else if upd_end fw (flashLog s) True then
        (setOtaStatus COMPLETED ''Update completed successfully''
           (s\<lparr>flashLog := flashLog s @ [FwEnd True]\<rparr>))\<lparr>restarted := True\<rparr>
      else
        (setOtaStatus ERROR ''Update finalization failed''
           (s\<lparr>flashLog := flashLog s @ [FwEnd True]\<rparr>))\<lparr>otaInProgress := False\<rparr>)"

text \<open>The block under \<^verbatim>\<open>// Handle firmware data\<close>. \<^verbatim>\<open>otaReceived += written\<close> is a
  32-bit addition.\<close>

definition handleData :: "flash_writer \<Rightarrow> byte list \<Rightarrow> session \<Rightarrow> session" where
  "handleData fw data s =
     (if otaReceived s < otaFileSize s then
        (let written = upd_write fw (flashLog s) data;
             s1 = s\<lparr>flashLog := flashLog s @ [FwWrite data]\<rparr>
         in if written > 0 then
              updateProgress (s1\<lparr>otaReceived := otaReceived s1 + of_nat written\<rparr>)
            else (setOtaStatus ERROR ''Write failed'' s1)\<lparr>otaInProgress := False\<rparr>)
      else s)"

text \<open>\<^verbatim>\<open>handleOtaWrite\<close>, on the value the transport delivers.\<close>

definition handleOtaWrite :: "flash_writer \<Rightarrow> byte list \<Rightarrow> session \<Rightarrow> session" where
  "handleOtaWrite fw raw s =
     (let data = c_str raw; len = length data in
      if len = 0 then s
      else if \<not> otaInProgress s \<and> len = 4 \<and> take 4 data = OTA_CMD_OPEN then
        setOtaStatus RECEIVING ''Update started''
          (s\<lparr>otaInProgress := True, otaFileSize := 0, otaReceived := 0\<rparr>)
      else if otaInProgress s then
        (if otaFileSize s = 0 \<and> len = 4 then handleFileSize fw data s
         else if len = 4 \<and> take 4 data = OTA_CMD_DONE then handleDone fw s
         else if len = 5 \<and> take 5 data = OTA_CMD_ABORT then abortUpdate s
         else handleData fw data s)
      else s)"

text \<open>\<^verbatim>\<open>onClientDisconnect\<close>.\<close>

definition onClientDisconnect :: "session \<Rightarrow> session" where
  "onClientDisconnect s =
     (let s1 = s\<lparr>clientConnected := False\<rparr>;
          s2 = (if otaInProgress s1 then abortUpdate s1 else s1)
      in s2\<lparr>connLog := connLog s2 @ [False]\<rparr>)"

text \<open>The transport delivers the frames of a transfer one after the other.\<close>

fun run :: "flash_writer \<Rightarrow> byte list list \<Rightarrow> session \<Rightarrow> session" where
  "run fw [] s = s"
| "run fw (f # fs) s = run fw fs (handleOtaWrite fw f s)"

text \<open>A flash writer that accepts everything: \<^verbatim>\<open>begin\<close> and \<^verbatim>\<open>end\<close> succeed and
  \<^verbatim>\<open>write\<close> writes all the bytes it is given.\<close>

definition accepting_writer :: flash_writer where
  "accepting_writer =
     \<lparr>upd_begin = (\<lambda>h sz. True), upd_write = (\<lambda>h d. length d), upd_end = (\<lambda>h c. True)\<rparr>"

text \<open>The condition under which \<^verbatim>\<open>handleOtaWrite\<close> reaches \<^verbatim>\<open>Update.write\<close>.\<close>

definition writes_data :: "session \<Rightarrow> byte list \<Rightarrow> bool" where
  "writes_data s raw =
     (let data = c_str raw; len = length data in
      len \<noteq> 0 \<and> otaInProgress s \<and> \<not> (otaFileSize s = 0 \<and> len = 4)
      \<and> \<not> (len = 4 \<and> take 4 data = OTA_CMD_DONE)
      \<and> \<not> (len = 5 \<and> take 5 data = OTA_CMD_ABORT)
      \<and> otaReceived s < otaFileSize s)"

text \<open>The flash writer writes in full every non-empty frame of a run of data frames
  that starts after the calls \<open>h\<close>.\<close>

fun writes_in_full :: "flash_writer \<Rightarrow> fw_call list \<Rightarrow> byte list list \<Rightarrow> bool" where
  "writes_in_full fw h [] = True"
| "writes_in_full fw h (c # cs) =
     (if c = [] then writes_in_full fw h cs
      else upd_write fw h c = length c \<and> writes_in_full fw (h @ [FwWrite c]) cs)"

text \<open>A transfer under way, used to instantiate the theorems below: opened, size frame
  \<open>01 01 01 01\<close> (16843009 bytes announced), three bytes received.\<close>

definition mid_transfer :: session where
  "mid_transfer = run accepting_writer [OTA_CMD_OPEN, [1, 1, 1, 1], [7, 7, 7]] initial_session"

text \<open>The same transfer just opened, before the size frame, and with all its bytes
  received in one frame.\<close>

definition opened_transfer :: session where
  "opened_transfer = run accepting_writer [OTA_CMD_OPEN] initial_session"

definition full_transfer :: session where
  "full_transfer =
     run accepting_writer [OTA_CMD_OPEN, [1, 1, 1, 1], replicate 16843009 1] initial_session"

text \<open>A flash writer that accepts everything but the commit.\<close>

definition uncommitting_writer :: flash_writer where
  "uncommitting_writer = accepting_writer\<lparr>upd_end := (\<lambda>h c. \<not> c)\<rparr>"

section \<open>Auxiliary facts\<close>

subsection \<open>Markers and frames\<close>

lemma OTA_CMD_OPEN_bytes: "OTA_CMD_OPEN = [0x4F, 0x50, 0x45, 0x4E]"
  by (simp add: OTA_CMD_OPEN_def bytes_of_def)

lemma OTA_CMD_DONE_bytes: "OTA_CMD_DONE = [0x44, 0x4F, 0x4E, 0x45]"
  by (simp add: OTA_CMD_DONE_def bytes_of_def)

lemma OTA_CMD_ABORT_bytes: "OTA_CMD_ABORT = [0x41, 0x42, 0x4F, 0x52, 0x54]"
  by (simp add: OTA_CMD_ABORT_def bytes_of_def)

lemma c_str_id: "0 \<notin> set xs \<Longrightarrow> c_str xs = xs"
  by (simp add: c_str_def takeWhile_eq_all_conv) metis

lemma c_str_replicate: "c_str (replicate n x) = (if x = 0 then [] else replicate n x)"
  by (induction n) (auto simp: c_str_def)

lemma replicate_neq_length: "n \<noteq> length ys \<Longrightarrow> replicate n x \<noteq> ys"
  by auto

lemma memcpy_u32_OPEN: "memcpy_u32 OTA_CMD_OPEN = 0x4E45504F"
  by (simp add: OTA_CMD_OPEN_bytes)

lemma memcpy_u32_DONE: "memcpy_u32 OTA_CMD_DONE = 0x454E4F44"
  by (simp add: OTA_CMD_DONE_bytes)

lemma memcpy_u32_nonzero:
  assumes "length f = 4" and "0 \<notin> set f"
  shows "memcpy_u32 f \<noteq> 0"
proof -
  from assms(1) obtain b0 b1 b2 b3 where f: "f = [b0, b1, b2, b3]"
    by (auto simp: length_Suc_conv numeral_eq_Suc)
  let ?n = "unat b0 + 256 * unat b1 + 65536 * unat b2 + 16777216 * unat b3"
  have "b0 \<noteq> 0"
    using assms(2) f by auto
  then have pos: "0 < ?n"
    by (simp add: unat_gt_0)
  have "unat b0 < 256" "unat b1 < 256" "unat b2 < 256" "unat b3 < 256"
    using unsigned_less [of b0] unsigned_less [of b1] unsigned_less [of b2]
      unsigned_less [of b3] by simp_all
  then have "?n < 2 ^ 32"
    by simp
  with pos have "\<not> 2 ^ LENGTH(32) dvd ?n"
    by (simp add: nat_dvd_not_less)
  then have "(of_nat ?n :: u32) \<noteq> 0"
    by (simp only: word_of_nat_eq_0_iff not_False_eq_True)
  moreover have "memcpy_u32 f = of_nat ?n"
    by (simp only: f memcpy_u32.simps)
  ultimately show ?thesis
    by metis
qed

lemmas step_defs = handleOtaWrite_def handleFileSize_def handleDone_def handleData_def
  abortUpdate_def setOtaStatus_def updateProgress_def Let_def

lemmas eval_defs = step_defs getUpdatePercentage_def initial_session_def accepting_writer_def
  c_str_def OTA_CMD_OPEN_bytes OTA_CMD_DONE_bytes OTA_CMD_ABORT_bytes

lemma mid_transfer_eq:
  "mid_transfer =
     \<lparr>otaInProgress = True, otaFileSize = 16843009, otaReceived = 3, otaStatus = RECEIVING,
      clientConnected = False, flashLog = [FwBegin 16843009, FwWrite [7, 7, 7]],
      statusLog = [(RECEIVING, ''Update started''), (RECEIVING, ''Receiving firmware'')],
      progressLog = [(3, 16843009, 0)], connLog = [], restarted = False\<rparr>"
  by (simp add: mid_transfer_def eval_defs)

lemma opened_transfer_eq:
  "opened_transfer =
     \<lparr>otaInProgress = True, otaFileSize = 0, otaReceived = 0, otaStatus = RECEIVING,
      clientConnected = False, flashLog = [],
      statusLog = [(RECEIVING, ''Update started'')],
      progressLog = [], connLog = [], restarted = False\<rparr>"
  by (simp add: opened_transfer_def eval_defs)

lemma full_transfer_eq:
  "full_transfer =
     \<lparr>otaInProgress = True, otaFileSize = 16843009, otaReceived = 16843009,
      otaStatus = RECEIVING, clientConnected = False,
      flashLog = [FwBegin 16843009, FwWrite (replicate 16843009 1)],
      statusLog = [(RECEIVING, ''Update started''), (RECEIVING, ''Receiving firmware'')],
      progressLog = [(16843009, 16843009, 100)], connLog = [], restarted = False\<rparr>"
  by (simp add: full_transfer_def eval_defs c_str_replicate [unfolded c_str_def])

subsection \<open>Arithmetic of the counters\<close>

lemma unat_add_of_nat:
  fixes r t :: u32
  assumes "unat r + n \<le> unat t"
  shows "unat (r + of_nat n) = unat r + n"
proof -
  have t: "unat t < 2 ^ 32"
    using unsigned_less [of t] by simp
  with assms have n: "n < 2 ^ 32" and sum: "unat r + n < 2 ^ 32"
    by simp_all
  from n have "unat (of_nat n :: u32) = n"
    by (simp add: unat_of_nat)
  with sum show ?thesis
    by (simp add: unat_word_ariths)
qed

lemma unat_getUpdatePercentage:
  "unat (getUpdatePercentage s) =
     (if otaFileSize s = 0 then 0
      else ((unat (otaReceived s) * 100) mod 2 ^ 32 div unat (otaFileSize s)) mod 256)"
  by (simp add: getUpdatePercentage_def unsigned_ucast_eq take_bit_eq_mod unat_div unat_word_ariths)

subsection \<open>The branches of handleOtaWrite\<close>

lemma open_step:
  "\<not> otaInProgress s \<Longrightarrow>
   handleOtaWrite fw OTA_CMD_OPEN s =
     setOtaStatus RECEIVING ''Update started''
       (s\<lparr>otaInProgress := True, otaFileSize := 0, otaReceived := 0\<rparr>)"
  by (simp add: handleOtaWrite_def c_str_def OTA_CMD_OPEN_bytes)

lemma handleOtaWrite_OPEN_active:
  "otaInProgress s \<Longrightarrow>
   handleOtaWrite fw OTA_CMD_OPEN s =
     (if otaFileSize s = 0 then handleFileSize fw OTA_CMD_OPEN s
      else handleData fw OTA_CMD_OPEN s)"
  by (simp add: handleOtaWrite_def c_str_def OTA_CMD_OPEN_bytes OTA_CMD_DONE_bytes)

lemma size_step:
  "otaInProgress s \<Longrightarrow> otaFileSize s = 0 \<Longrightarrow> length f = 4 \<Longrightarrow> 0 \<notin> set f \<Longrightarrow>
   handleOtaWrite fw f s = handleFileSize fw f s"
  by (auto simp: handleOtaWrite_def c_str_id)

lemma handleOtaWrite_DONE_unsized:
  "otaInProgress s \<Longrightarrow> otaFileSize s = 0 \<Longrightarrow>
   handleOtaWrite fw OTA_CMD_DONE s = handleFileSize fw OTA_CMD_DONE s"
  by (simp add: handleOtaWrite_def c_str_def OTA_CMD_DONE_bytes)

lemma handleOtaWrite_DONE:
  "otaInProgress s \<Longrightarrow> otaFileSize s \<noteq> 0 \<Longrightarrow> handleOtaWrite fw OTA_CMD_DONE s = handleDone fw s"
  by (simp add: handleOtaWrite_def c_str_def OTA_CMD_DONE_bytes)

lemma handleOtaWrite_ABORT:
  "otaInProgress s \<Longrightarrow> handleOtaWrite fw OTA_CMD_ABORT s = abortUpdate s"
  by (simp add: handleOtaWrite_def c_str_def OTA_CMD_ABORT_bytes OTA_CMD_DONE_bytes)

lemma handleOtaWrite_idle_ABORT:
  "\<not> otaInProgress s \<Longrightarrow> handleOtaWrite fw OTA_CMD_ABORT s = s"
  by (simp add: handleOtaWrite_def c_str_def OTA_CMD_ABORT_bytes)

lemma handleOtaWrite_chunk:
  assumes "otaInProgress s" and "otaFileSize s \<noteq> 0"
      and "0 \<notin> set c" and "c \<noteq> []" and "c \<noteq> OTA_CMD_DONE" and "c \<noteq> OTA_CMD_ABORT"
  shows "handleOtaWrite fw c s = handleData fw c s"
  using assms by (auto simp: handleOtaWrite_def c_str_id Let_def)

text \<open>A frame reaches \<^verbatim>\<open>Update.write\<close> exactly under the condition \<open>writes_data\<close>, and
  what is written is the frame up to its first zero byte.\<close>

lemma writes_data_iff:
  "flashLog (handleOtaWrite fw raw s) = flashLog s @ [FwWrite (c_str raw)] \<longleftrightarrow> writes_data s raw"
  by (auto simp: handleOtaWrite_def writes_data_def handleFileSize_def handleDone_def
      handleData_def abortUpdate_def setOtaStatus_def updateProgress_def Let_def)

subsection \<open>The status and the flag\<close>

text \<open>The methods test \<^verbatim>\<open>otaInProgress\<close>, not \<^verbatim>\<open>otaStatus\<close>. Under frames and
  disconnects the two agree until the restart: a transfer is in progress exactly when
  the status is \<open>RECEIVING\<close>.\<close>

lemma status_follows_flag_step:
  assumes "restarted s \<or> (otaInProgress s \<longleftrightarrow> otaStatus s = RECEIVING)"
  shows "restarted (handleOtaWrite fw raw s)
       \<or> (otaInProgress (handleOtaWrite fw raw s) \<longleftrightarrow> otaStatus (handleOtaWrite fw raw s) = RECEIVING)"
  using assms
  by (auto simp: handleOtaWrite_def handleFileSize_def handleDone_def handleData_def
      abortUpdate_def setOtaStatus_def updateProgress_def Let_def)

lemma status_follows_flag_disconnect:
  assumes "restarted s \<or> (otaInProgress s \<longleftrightarrow> otaStatus s = RECEIVING)"
  shows "restarted (onClientDisconnect s)
       \<or> (otaInProgress (onClientDisconnect s) \<longleftrightarrow> otaStatus (onClientDisconnect s) = RECEIVING)"
  using assms
  by (auto simp: onClientDisconnect_def abortUpdate_def setOtaStatus_def Let_def)

lemma status_follows_flag_run:
  "restarted s \<or> (otaInProgress s \<longleftrightarrow> otaStatus s = RECEIVING) \<Longrightarrow>
   restarted (run fw frames s)
     \<or> (otaInProgress (run fw frames s) \<longleftrightarrow> otaStatus (run fw frames s) = RECEIVING)"
proof (induction frames arbitrary: s)
  case Nil
  then show ?case by simp
next
  case (Cons f fs)
  from status_follows_flag_step [OF Cons.prems, of fw f] show ?case
    by (simp add: Cons.IH)
qed

subsection \<open>The invariant, branch by branch\<close>





subsection \<open>Runs of data frames\<close>

lemma run_append: "run fw (xs @ ys) s = run fw ys (run fw xs s)"
  by (induction xs arbitrary: s) simp_all

lemma chunk_step:
  assumes act: "otaInProgress s" "otaFileSize s \<noteq> 0"
      and c: "0 \<notin> set c" "c \<noteq> OTA_CMD_DONE" "c \<noteq> OTA_CMD_ABORT"
      and full: "c \<noteq> [] \<longrightarrow> upd_write fw (flashLog s) c = length c"
      and fit: "unat (otaReceived s) + length c \<le> unat (otaFileSize s)"
  shows "handleOtaWrite fw c s =
           (if c = [] then s
            else updateProgress
                   (s\<lparr>flashLog := flashLog s @ [FwWrite c],
                      otaReceived := otaReceived s + of_nat (length c)\<rparr>))"
proof (cases "c = []")
  case True
  then show ?thesis
    by (simp add: handleOtaWrite_def c_str_def)
next
  case False
  then have "unat (otaReceived s) < unat (otaFileSize s)"
    using fit by (cases c) simp_all
  then have "otaReceived s < otaFileSize s"
    by (simp add: word_less_nat_alt)
  with False full show ?thesis
    by (simp add: handleOtaWrite_chunk [OF act c(1) False c(2,3)] handleData_def Let_def)
qed

lemma run_chunks:
  assumes "otaInProgress s" and "otaFileSize s \<noteq> 0"
      and "\<forall>c \<in> set chunks. 0 \<notin> set c \<and> c \<noteq> OTA_CMD_DONE \<and> c \<noteq> OTA_CMD_ABORT"
      and "writes_in_full fw (flashLog s) chunks"
      and "unat (otaReceived s) + sum_list (map length chunks) \<le> unat (otaFileSize s)"
  shows "otaInProgress (run fw chunks s)
       \<and> otaFileSize (run fw chunks s) = otaFileSize s
       \<and> unat (otaReceived (run fw chunks s)) = unat (otaReceived s) + sum_list (map length chunks)
       \<and> flashLog (run fw chunks s) = flashLog s @ map FwWrite (filter (\<lambda>c. c \<noteq> []) chunks)
       \<and> otaStatus (run fw chunks s) = otaStatus s
       \<and> statusLog (run fw chunks s) = statusLog s
       \<and> restarted (run fw chunks s) = restarted s"
  using assms
proof (induction chunks arbitrary: s)
  case Nil
  then show ?case by simp
next
  case (Cons c cs)
  let ?s1 = "handleOtaWrite fw c s"
  have fit: "unat (otaReceived s) + length c \<le> unat (otaFileSize s)"
    using Cons.prems(5) by simp
  have c: "0 \<notin> set c" "c \<noteq> OTA_CMD_DONE" "c \<noteq> OTA_CMD_ABORT"
    using Cons.prems(3) by simp_all
  have full: "c \<noteq> [] \<longrightarrow> upd_write fw (flashLog s) c = length c"
    using Cons.prems(4) by simp
  note step = chunk_step [OF Cons.prems(1,2) c full fit]
  have s1: "otaInProgress ?s1" "otaFileSize ?s1 = otaFileSize s"
    "otaReceived ?s1 = otaReceived s + of_nat (length c)"
    "flashLog ?s1 = flashLog s @ map FwWrite (filter (\<lambda>c. c \<noteq> []) [c])"
    "otaStatus ?s1 = otaStatus s" "statusLog ?s1 = statusLog s" "restarted ?s1 = restarted s"
    using Cons.prems(1) by (simp_all add: step updateProgress_def)
  have r1: "unat (otaReceived ?s1) = unat (otaReceived s) + length c"
    by (simp only: s1(3) unat_add_of_nat [OF fit])
  have "unat (otaReceived ?s1) + sum_list (map length cs) \<le> unat (otaFileSize ?s1)"
    using Cons.prems(5) by (simp add: r1 s1(2))
  moreover have "otaFileSize ?s1 \<noteq> 0"
    using Cons.prems(2) by (simp add: s1(2))
  moreover have "\<forall>c \<in> set cs. 0 \<notin> set c \<and> c \<noteq> OTA_CMD_DONE \<and> c \<noteq> OTA_CMD_ABORT"
    using Cons.prems(3) by simp
  moreover have "writes_in_full fw (flashLog ?s1) cs"
  proof (cases "c = []")
    case True
    with Cons.prems(4) have "writes_in_full fw (flashLog s) cs"
      by simp
    moreover from True have "flashLog ?s1 = flashLog s"
      using s1(4) by simp
    ultimately show ?thesis
      by (simp only:)
  next
    case False
    with Cons.prems(4) have "writes_in_full fw (flashLog s @ [FwWrite c]) cs"
      by simp
    moreover from False have "flashLog ?s1 = flashLog s @ [FwWrite c]"
      using s1(4) by simp
    ultimately show ?thesis
      by (simp only:)
  qed
  ultimately have IH: "otaInProgress (run fw cs ?s1)
       \<and> otaFileSize (run fw cs ?s1) = otaFileSize ?s1
       \<and> unat (otaReceived (run fw cs ?s1)) = unat (otaReceived ?s1) + sum_list (map length cs)
       \<and> flashLog (run fw cs ?s1) = flashLog ?s1 @ map FwWrite (filter (\<lambda>c. c \<noteq> []) cs)
       \<and> otaStatus (run fw cs ?s1) = otaStatus ?s1
       \<and> statusLog (run fw cs ?s1) = statusLog ?s1
       \<and> restarted (run fw cs ?s1) = restarted ?s1"
    using Cons.IH [of ?s1] s1(1) by blast
  show ?case
    using IH by (simp add: r1 s1(2,4,5,6,7))
qed

text \<open>
  What the handler does with a transfer in which no frame holds a zero byte. From a
  session with no transfer in progress: OPEN, a size frame of four non-zero bytes
  announcing \<open>total\<close>, data frames whose lengths add up to \<open>total\<close>, none of them the
  DONE or the ABORT marker, then DONE. If the flash writer accepts this \<open>begin\<close>,
  writes each of these frames in full and accepts this commit, the status is
  \<open>COMPLETED\<close> and the flash writer has received \<open>begin(total)\<close>, the non-empty frames
  and \<open>end(true)\<close>, in this order.
\<close>

lemma zero_free_transfer_completes:
  assumes idle: "\<not> otaInProgress s"
      and szf: "length szf = 4" "0 \<notin> set szf"
      and chunks: "\<forall>c \<in> set chunks. 0 \<notin> set c \<and> c \<noteq> OTA_CMD_DONE \<and> c \<noteq> OTA_CMD_ABORT"
      and total: "sum_list (map length chunks) = unat (memcpy_u32 szf)"
      and wbegin: "upd_begin fw (flashLog s) (memcpy_u32 szf)"
      and wwrite: "writes_in_full fw (flashLog s @ [FwBegin (memcpy_u32 szf)]) chunks"
      and wend: "upd_end fw (flashLog s @ [FwBegin (memcpy_u32 szf)]
                   @ map FwWrite (filter (\<lambda>c. c \<noteq> []) chunks)) True"
  shows "let s' = run fw (OTA_CMD_OPEN # szf # chunks @ [OTA_CMD_DONE]) s in
           otaStatus s' = COMPLETED
         \<and> restarted s'
         \<and> otaFileSize s' = memcpy_u32 szf
         \<and> otaReceived s' = memcpy_u32 szf
         \<and> flashLog s' = flashLog s @ [FwBegin (memcpy_u32 szf)]
               @ map FwWrite (filter (\<lambda>c. c \<noteq> []) chunks) @ [FwEnd True]
         \<and> statusLog s' = statusLog s @ [(RECEIVING, ''Update started''),
               (RECEIVING, ''Receiving firmware''),
               (COMPLETED, ''Update completed successfully'')]"
proof -
  let ?t = "memcpy_u32 szf"
  let ?s1 = "handleOtaWrite fw OTA_CMD_OPEN s"
  let ?s2 = "handleOtaWrite fw szf ?s1"
  let ?s3 = "run fw chunks ?s2"
  have t: "?t \<noteq> 0"
    using szf by (rule memcpy_u32_nonzero)
  have s1: "otaInProgress ?s1" "otaFileSize ?s1 = 0" "otaReceived ?s1 = 0"
    "flashLog ?s1 = flashLog s" "statusLog ?s1 = statusLog s @ [(RECEIVING, ''Update started'')]"
    "restarted ?s1 = restarted s"
    by (simp_all add: open_step [OF idle] setOtaStatus_def)
  have s2: "otaInProgress ?s2" "otaFileSize ?s2 = ?t" "otaReceived ?s2 = 0"
    "flashLog ?s2 = flashLog s @ [FwBegin ?t]"
    "statusLog ?s2 = statusLog s @ [(RECEIVING, ''Update started''),
       (RECEIVING, ''Receiving firmware'')]"
    using wbegin
    by (simp_all add: size_step [OF s1(1,2) szf] handleFileSize_def setOtaStatus_def Let_def s1)
  have "unat (otaReceived ?s2) + sum_list (map length chunks) \<le> unat (otaFileSize ?s2)"
    by (simp add: s2 total)
  moreover have "writes_in_full fw (flashLog ?s2) chunks"
    using wwrite by (simp only: s2(4))
  ultimately have s3: "otaInProgress ?s3" "otaFileSize ?s3 = ?t"
    "unat (otaReceived ?s3) = unat ?t"
    "flashLog ?s3 = flashLog s @ [FwBegin ?t] @ map FwWrite (filter (\<lambda>c. c \<noteq> []) chunks)"
    "statusLog ?s3 = statusLog ?s2"
    using run_chunks [of ?s2 chunks fw] s2(1) chunks t
    by (simp_all add: s2(2,3,4) total)
  from s3(3) have r3: "otaReceived ?s3 = ?t"
    by (simp add: word_unat_eq_iff)
  have run: "run fw (OTA_CMD_OPEN # szf # chunks @ [OTA_CMD_DONE]) s
               = handleOtaWrite fw OTA_CMD_DONE ?s3"
    by (simp add: run_append)
  have "handleOtaWrite fw OTA_CMD_DONE ?s3 = handleDone fw ?s3"
    using s3(1) t by (simp add: handleOtaWrite_DONE s3(2))
  with run have fin: "run fw (OTA_CMD_OPEN # szf # chunks @ [OTA_CMD_DONE]) s = handleDone fw ?s3"
    by (simp only:)
  have "upd_end fw (flashLog ?s3) True"
    using wend by (simp only: s3(4))
  then show ?thesis
    unfolding fin Let_def
    by (simp add: handleDone_def setOtaStatus_def r3 s3(2,4,5) s2(5))
qed

text \<open>An instance: 16843009 bytes in three frames, one of them empty.\<close>

lemma zero_free_transfer_example:
  "otaStatus (run accepting_writer
        (OTA_CMD_OPEN # [1, 1, 1, 1] # [replicate 16843000 1, [], replicate 9 2] @ [OTA_CMD_DONE])
        initial_session) = COMPLETED
   \<and> otaReceived (run accepting_writer
        (OTA_CMD_OPEN # [1, 1, 1, 1] # [replicate 16843000 1, [], replicate 9 2] @ [OTA_CMD_DONE])
        initial_session) = 16843009
   \<and> flashLog (run accepting_writer
        (OTA_CMD_OPEN # [1, 1, 1, 1] # [replicate 16843000 1, [], replicate 9 2] @ [OTA_CMD_DONE])
        initial_session)
       = [FwBegin 16843009, FwWrite (replicate 16843000 1), FwWrite (replicate 9 2), FwEnd True]"
proof -
  have h1: "\<not> otaInProgress initial_session"
    by (simp add: initial_session_def)
  have h2: "length [1, 1, 1, 1 :: byte] = 4" and h3: "0 \<notin> set [1, 1, 1, 1 :: byte]"
    by simp_all
  have h4: "\<forall>c \<in> set [replicate 16843000 1, [], replicate 9 (2 :: byte)].
              0 \<notin> set c \<and> c \<noteq> OTA_CMD_DONE \<and> c \<noteq> OTA_CMD_ABORT"
    by (simp add: replicate_neq_length OTA_CMD_DONE_bytes OTA_CMD_ABORT_bytes)
  have h5: "sum_list (map length [replicate 16843000 1, [], replicate 9 (2 :: byte)])
              = unat (memcpy_u32 [1, 1, 1, 1])"
    by simp
  have h6: "upd_begin accepting_writer (flashLog initial_session) (memcpy_u32 [1, 1, 1, 1])"
    by (simp add: accepting_writer_def)
  have h7: "writes_in_full accepting_writer
              (flashLog initial_session @ [FwBegin (memcpy_u32 [1, 1, 1, 1])])
              [replicate 16843000 1, [], replicate 9 2]"
    by (simp add: accepting_writer_def)
  have h8: "upd_end accepting_writer
              (flashLog initial_session @ [FwBegin (memcpy_u32 [1, 1, 1, 1])]
                 @ map FwWrite (filter (\<lambda>c. c \<noteq> []) [replicate 16843000 1, [], replicate 9 2]))
              True"
    by (simp add: accepting_writer_def)
  note zero_free_transfer_completes [OF h1 h2 h3 h4 h5 h6 h7 h8]
  then show ?thesis
    by (simp add: Let_def initial_session_def)
qed

section \<open>The claims\<close>

text \<open>
  \<^bold>\<open>C1.\<close> The handler at the transfer OPEN, size frame for 1024 bytes
  (\<open>00 04 00 00\<close>), 1024 bytes of payload, DONE, with a flash writer that accepts
  everything. The size frame starts with a zero byte, so it has length 0 after the copy
  at the head of \<^verbatim>\<open>handleOtaWrite\<close> and is dropped: the session is as it was after
  OPEN. The payload is not written, and DONE, the first frame of four bytes to be seen,
  is read as the size. The status stays \<open>RECEIVING\<close>, nothing is counted, and the
  flash writer has received \<open>begin(0x454E4F44)\<close> and nothing else: no \<open>begin(1024)\<close>,
  no \<open>write\<close>, no \<open>end(true)\<close>.
\<close>

theorem announced_transfer_not_completed:
  "run accepting_writer [OTA_CMD_OPEN, [0, 4, 0, 0]] initial_session
     = run accepting_writer [OTA_CMD_OPEN] initial_session
   \<and> otaStatus (run accepting_writer
      [OTA_CMD_OPEN, [0, 4, 0, 0], replicate 1024 1, OTA_CMD_DONE] initial_session) = RECEIVING
   \<and> otaInProgress (run accepting_writer
      [OTA_CMD_OPEN, [0, 4, 0, 0], replicate 1024 1, OTA_CMD_DONE] initial_session)
   \<and> otaFileSize (run accepting_writer
      [OTA_CMD_OPEN, [0, 4, 0, 0], replicate 1024 1, OTA_CMD_DONE] initial_session) = 0x454E4F44
   \<and> otaReceived (run accepting_writer
      [OTA_CMD_OPEN, [0, 4, 0, 0], replicate 1024 1, OTA_CMD_DONE] initial_session) = 0
   \<and> flashLog (run accepting_writer
      [OTA_CMD_OPEN, [0, 4, 0, 0], replicate 1024 1, OTA_CMD_DONE] initial_session)
       = [FwBegin 0x454E4F44]"
  by (simp add: eval_defs c_str_replicate [unfolded c_str_def])




text \<open>
  \<^bold>\<open>C3.\<close> The handler at a data frame that holds a zero byte, during a transfer of
  known size with bytes still missing: of the frame \<open>01 00 02\<close> only \<open>01\<close> reaches the
  flash writer and only one byte is counted; the frame \<open>00 01 02\<close> is dropped whole.
\<close>

theorem zero_byte_truncates_frame:
  "flashLog (run accepting_writer [OTA_CMD_OPEN, [1, 1, 1, 1], [1, 0, 2]] initial_session)
     = [FwBegin 16843009, FwWrite [1]]
   \<and> otaReceived (run accepting_writer [OTA_CMD_OPEN, [1, 1, 1, 1], [1, 0, 2]] initial_session) = 1
   \<and> run accepting_writer [OTA_CMD_OPEN, [1, 1, 1, 1], [0, 1, 2]] initial_session
     = run accepting_writer [OTA_CMD_OPEN, [1, 1, 1, 1]] initial_session"
  by (simp add: eval_defs)

text \<open>
  \<^bold>\<open>C4.\<close> When the DONE frame arrives during a transfer whose size is known and the
  number of bytes received differs from that size, the status becomes \<open>ERROR\<close> with
  the message "Size mismatch", the flash writer receives \<open>end(false)\<close> and nothing
  else, and \<open>otaReceived\<close> and \<open>otaFileSize\<close> keep their values.
\<close>

theorem done_size_mismatch_fails:
  assumes "otaInProgress s" and "otaFileSize s \<noteq> 0" and "otaReceived s \<noteq> otaFileSize s"
  shows "let s' = handleOtaWrite fw OTA_CMD_DONE s in
           otaStatus s' = ERROR
         \<and> statusLog s' = statusLog s @ [(ERROR, ''Size mismatch'')]
         \<and> flashLog s' = flashLog s @ [FwEnd False]
         \<and> otaReceived s' = otaReceived s
         \<and> otaFileSize s' = otaFileSize s
         \<and> \<not> otaInProgress s'"
  using assms by (simp add: handleOtaWrite_DONE handleDone_def setOtaStatus_def)

theorem done_size_mismatch_fails_witness:
  "otaInProgress mid_transfer \<and> otaFileSize mid_transfer \<noteq> 0
   \<and> otaReceived mid_transfer \<noteq> otaFileSize mid_transfer
   \<and> otaStatus (handleOtaWrite accepting_writer OTA_CMD_DONE mid_transfer) = ERROR
   \<and> statusLog (handleOtaWrite accepting_writer OTA_CMD_DONE mid_transfer)
       = [(RECEIVING, ''Update started''), (RECEIVING, ''Receiving firmware''),
          (ERROR, ''Size mismatch'')]
   \<and> flashLog (handleOtaWrite accepting_writer OTA_CMD_DONE mid_transfer)
       = [FwBegin 16843009, FwWrite [7, 7, 7], FwEnd False]
   \<and> otaReceived (handleOtaWrite accepting_writer OTA_CMD_DONE mid_transfer) = 3"
  using done_size_mismatch_fails [of mid_transfer accepting_writer]
  by (simp add: mid_transfer_eq Let_def)

text \<open>
  \<^bold>\<open>C5\<close> (as amended). During a transfer the four bytes "OPEN" are not a command.
  Before the size frame they are read as the size, \<open>0x4E45504F\<close>, and the flash writer
  receives \<open>begin\<close> with it. After the size frame they are firmware data: written to
  the flash writer and counted while bytes are missing, dropped otherwise. In no case
  are the counters reset or the flash writer's transaction ended.
\<close>

theorem open_during_transfer:
  assumes "otaInProgress s"
  shows "let s' = handleOtaWrite fw OTA_CMD_OPEN s in
           (otaFileSize s = 0 \<longrightarrow>
              otaFileSize s' = 0x4E45504F \<and> otaReceived s' = otaReceived s
              \<and> flashLog s' = flashLog s @ [FwBegin 0x4E45504F])
         \<and> (otaFileSize s \<noteq> 0 \<and> otaReceived s < otaFileSize s \<longrightarrow>
              otaFileSize s' = otaFileSize s
              \<and> otaReceived s' = otaReceived s + of_nat (upd_write fw (flashLog s) OTA_CMD_OPEN)
              \<and> flashLog s' = flashLog s @ [FwWrite OTA_CMD_OPEN])
         \<and> (otaFileSize s \<noteq> 0 \<and> \<not> otaReceived s < otaFileSize s \<longrightarrow> s' = s)"
  using assms
  by (simp add: handleOtaWrite_OPEN_active handleFileSize_def handleData_def
      setOtaStatus_def updateProgress_def memcpy_u32_OPEN Let_def)

theorem open_during_transfer_witness:
  "otaInProgress opened_transfer \<and> otaFileSize opened_transfer = 0
   \<and> otaFileSize (handleOtaWrite accepting_writer OTA_CMD_OPEN opened_transfer) = 0x4E45504F
   \<and> flashLog (handleOtaWrite accepting_writer OTA_CMD_OPEN opened_transfer)
       = [FwBegin 0x4E45504F]
   \<and> otaInProgress mid_transfer
   \<and> otaFileSize mid_transfer \<noteq> 0 \<and> otaReceived mid_transfer < otaFileSize mid_transfer
   \<and> otaFileSize (handleOtaWrite accepting_writer OTA_CMD_OPEN mid_transfer) = 16843009
   \<and> otaReceived (handleOtaWrite accepting_writer OTA_CMD_OPEN mid_transfer) = 7
   \<and> flashLog (handleOtaWrite accepting_writer OTA_CMD_OPEN mid_transfer)
       = [FwBegin 16843009, FwWrite [7, 7, 7], FwWrite OTA_CMD_OPEN]
   \<and> otaInProgress full_transfer
   \<and> otaFileSize full_transfer \<noteq> 0 \<and> \<not> otaReceived full_transfer < otaFileSize full_transfer
   \<and> handleOtaWrite accepting_writer OTA_CMD_OPEN full_transfer = full_transfer"
  using open_during_transfer [of opened_transfer accepting_writer]
        open_during_transfer [of mid_transfer accepting_writer]
        open_during_transfer [of full_transfer accepting_writer]
  by (simp add: opened_transfer_eq mid_transfer_eq full_transfer_eq Let_def
      accepting_writer_def OTA_CMD_OPEN_bytes)

text \<open>OPEN after three bytes of a transfer: the counter goes on from 3 to 7.\<close>

theorem open_during_transfer_counterexample:
  "otaReceived (run accepting_writer
      [OTA_CMD_OPEN, [1, 1, 1, 1], [7, 7, 7], OTA_CMD_OPEN] initial_session) = 7
   \<and> otaFileSize (run accepting_writer
      [OTA_CMD_OPEN, [1, 1, 1, 1], [7, 7, 7], OTA_CMD_OPEN] initial_session) = 16843009
   \<and> flashLog (run accepting_writer
      [OTA_CMD_OPEN, [1, 1, 1, 1], [7, 7, 7], OTA_CMD_OPEN] initial_session)
       = [FwBegin 16843009, FwWrite [7, 7, 7], FwWrite [0x4F, 0x50, 0x45, 0x4E]]
   \<and> statusLog (run accepting_writer
      [OTA_CMD_OPEN, [1, 1, 1, 1], [7, 7, 7], OTA_CMD_OPEN] initial_session)
       = [(RECEIVING, ''Update started''), (RECEIVING, ''Receiving firmware'')]"
  by (simp add: eval_defs)

text \<open>
  \<^bold>\<open>C6\<close> (as amended). During a transfer whose size is known, the four bytes "DONE"
  finalize: \<open>end(false)\<close> and \<open>ERROR\<close> when the counts differ, \<open>end(true)\<close> when they
  agree, with \<open>COMPLETED\<close> and a restart if the flash writer accepts and \<open>ERROR\<close> if not.
  While the size is still 0 the frame is read as the size, \<open>0x454E4F44\<close>, the flash
  writer receives \<open>begin\<close> with it, and the transfer stays in progress if that succeeds.
\<close>

theorem done_frame_during_transfer:
  assumes "otaInProgress s"
  shows "let s' = handleOtaWrite fw OTA_CMD_DONE s in
           (otaFileSize s \<noteq> 0 \<and> otaReceived s \<noteq> otaFileSize s \<longrightarrow>
              otaStatus s' = ERROR \<and> \<not> otaInProgress s'
              \<and> flashLog s' = flashLog s @ [FwEnd False])
         \<and> (otaFileSize s \<noteq> 0 \<and> otaReceived s = otaFileSize s \<and> upd_end fw (flashLog s) True \<longrightarrow>
              otaStatus s' = COMPLETED \<and> restarted s'
              \<and> flashLog s' = flashLog s @ [FwEnd True])
         \<and> (otaFileSize s \<noteq> 0 \<and> otaReceived s = otaFileSize s \<and> \<not> upd_end fw (flashLog s) True \<longrightarrow>
              otaStatus s' = ERROR \<and> \<not> otaInProgress s'
              \<and> flashLog s' = flashLog s @ [FwEnd True])
         \<and> (otaFileSize s = 0 \<longrightarrow>
              otaFileSize s' = 0x454E4F44
              \<and> flashLog s' = flashLog s @ [FwBegin 0x454E4F44]
              \<and> otaStatus s' = (if upd_begin fw (flashLog s) 0x454E4F44 then RECEIVING else ERROR)
              \<and> otaInProgress s' = upd_begin fw (flashLog s) 0x454E4F44)"
  using assms
  by (simp add: handleOtaWrite_DONE handleOtaWrite_DONE_unsized handleFileSize_def
      handleDone_def setOtaStatus_def memcpy_u32_DONE Let_def)

theorem done_frame_during_transfer_witness:
  "otaInProgress mid_transfer
   \<and> otaFileSize mid_transfer \<noteq> 0 \<and> otaReceived mid_transfer \<noteq> otaFileSize mid_transfer
   \<and> otaStatus (handleOtaWrite accepting_writer OTA_CMD_DONE mid_transfer) = ERROR
   \<and> \<not> otaInProgress (handleOtaWrite accepting_writer OTA_CMD_DONE mid_transfer)
   \<and> flashLog (handleOtaWrite accepting_writer OTA_CMD_DONE mid_transfer)
       = [FwBegin 16843009, FwWrite [7, 7, 7], FwEnd False]
   \<and> otaInProgress full_transfer
   \<and> otaFileSize full_transfer \<noteq> 0 \<and> otaReceived full_transfer = otaFileSize full_transfer
   \<and> upd_end accepting_writer (flashLog full_transfer) True
   \<and> otaStatus (handleOtaWrite accepting_writer OTA_CMD_DONE full_transfer) = COMPLETED
   \<and> flashLog (handleOtaWrite accepting_writer OTA_CMD_DONE full_transfer)
       = [FwBegin 16843009, FwWrite (replicate 16843009 1), FwEnd True]
   \<and> \<not> upd_end uncommitting_writer (flashLog full_transfer) True
   \<and> otaStatus (handleOtaWrite uncommitting_writer OTA_CMD_DONE full_transfer) = ERROR
   \<and> flashLog (handleOtaWrite uncommitting_writer OTA_CMD_DONE full_transfer)
       = [FwBegin 16843009, FwWrite (replicate 16843009 1), FwEnd True]
   \<and> otaInProgress opened_transfer \<and> otaFileSize opened_transfer = 0
   \<and> otaFileSize (handleOtaWrite accepting_writer OTA_CMD_DONE opened_transfer) = 0x454E4F44
   \<and> otaStatus (handleOtaWrite accepting_writer OTA_CMD_DONE opened_transfer) = RECEIVING
   \<and> flashLog (handleOtaWrite accepting_writer OTA_CMD_DONE opened_transfer)
       = [FwBegin 0x454E4F44]"
  using done_frame_during_transfer [of mid_transfer accepting_writer]
        done_frame_during_transfer [of full_transfer accepting_writer]
        done_frame_during_transfer [of full_transfer uncommitting_writer]
        done_frame_during_transfer [of opened_transfer accepting_writer]
  by (simp add: opened_transfer_eq mid_transfer_eq full_transfer_eq Let_def
      accepting_writer_def uncommitting_writer_def)

text \<open>DONE right after OPEN.\<close>

theorem done_frame_counterexample:
  "otaStatus (run accepting_writer [OTA_CMD_OPEN, OTA_CMD_DONE] initial_session) = RECEIVING
   \<and> otaInProgress (run accepting_writer [OTA_CMD_OPEN, OTA_CMD_DONE] initial_session)
   \<and> otaFileSize (run accepting_writer [OTA_CMD_OPEN, OTA_CMD_DONE] initial_session) = 0x454E4F44
   \<and> flashLog (run accepting_writer [OTA_CMD_OPEN, OTA_CMD_DONE] initial_session)
       = [FwBegin 0x454E4F44]"
  by (simp add: eval_defs)

text \<open>
  \<^bold>\<open>C7.\<close> While a transfer is in progress the 5-byte ABORT frame makes exactly one
  call to the flash writer, \<open>end(false)\<close>, sets the status to \<open>ABORTED\<close> and resets
  \<open>otaInProgress\<close>, \<open>otaFileSize\<close> and \<open>otaReceived\<close>. While no transfer is in
  progress the ABORT frame leaves the whole session as it is. (The code has one flag,
  \<^verbatim>\<open>otaInProgress\<close>, for "a transfer is active"; by \<open>status_follows_flag_run\<close> it
  is set exactly when the status is \<open>RECEIVING\<close>. Finalization is part of the DONE
  step and has no state of its own.)
\<close>

theorem abort_frame:
  "(otaInProgress s \<longrightarrow>
      (let s' = handleOtaWrite fw OTA_CMD_ABORT s in
         flashLog s' = flashLog s @ [FwEnd False]
       \<and> otaStatus s' = ABORTED
       \<and> \<not> otaInProgress s' \<and> otaFileSize s' = 0 \<and> otaReceived s' = 0))
   \<and> (\<not> otaInProgress s \<longrightarrow> handleOtaWrite fw OTA_CMD_ABORT s = s)"
  by (simp add: handleOtaWrite_ABORT handleOtaWrite_idle_ABORT abortUpdate_def setOtaStatus_def)

theorem abort_frame_witness:
  "otaInProgress mid_transfer
   \<and> flashLog (handleOtaWrite accepting_writer OTA_CMD_ABORT mid_transfer)
       = [FwBegin 16843009, FwWrite [7, 7, 7], FwEnd False]
   \<and> otaStatus (handleOtaWrite accepting_writer OTA_CMD_ABORT mid_transfer) = ABORTED
   \<and> otaReceived (handleOtaWrite accepting_writer OTA_CMD_ABORT mid_transfer) = 0
   \<and> \<not> otaInProgress initial_session
   \<and> handleOtaWrite accepting_writer OTA_CMD_ABORT initial_session = initial_session"
  using abort_frame [of mid_transfer accepting_writer]
        abort_frame [of initial_session accepting_writer]
  by (simp add: mid_transfer_eq initial_session_def Let_def)

text \<open>
  \<^bold>\<open>C8.\<close> A disconnect during a transfer leaves the session that the ABORT frame
  would leave, apart from the connection flag and the connection callback: the flash
  writer receives \<open>end(false)\<close>, the status is \<open>ABORTED\<close> and the counters are reset.
\<close>

theorem disconnect_like_abort:
  assumes "otaInProgress s"
  shows "let d = onClientDisconnect s; a = handleOtaWrite fw OTA_CMD_ABORT s in
           d = a\<lparr>clientConnected := False, connLog := connLog s @ [False]\<rparr>
         \<and> otaStatus d = ABORTED \<and> otaStatus a = ABORTED
         \<and> \<not> otaInProgress d \<and> otaFileSize d = 0 \<and> otaReceived d = 0
         \<and> flashLog d = flashLog s @ [FwEnd False] \<and> flashLog a = flashLog s @ [FwEnd False]"
  using assms
  by (simp add: handleOtaWrite_ABORT onClientDisconnect_def abortUpdate_def setOtaStatus_def)

theorem disconnect_like_abort_witness:
  "otaInProgress mid_transfer
   \<and> onClientDisconnect mid_transfer
       = (handleOtaWrite accepting_writer OTA_CMD_ABORT mid_transfer)
           \<lparr>clientConnected := False, connLog := [False]\<rparr>
   \<and> otaStatus (onClientDisconnect mid_transfer) = ABORTED
   \<and> flashLog (onClientDisconnect mid_transfer)
       = [FwBegin 16843009, FwWrite [7, 7, 7], FwEnd False]"
  using disconnect_like_abort [of mid_transfer accepting_writer]
  by (simp add: mid_transfer_eq Let_def)

text \<open>
  \<^bold>\<open>C9\<close> (as amended). The percentage is 0 when \<open>otaFileSize\<close> is 0. Otherwise it
  is \<open>\<lfloor>otaReceived * 100 / otaFileSize\<rfloor>\<close> whenever \<open>otaReceived * 100\<close> fits into 32
  bits and the quotient into 8 bits; \<open>percentage(0, 0) = 0\<close> and
  \<open>percentage(50, 200) = 25\<close>.
\<close>

theorem percentage_floor:
  assumes "unat (otaReceived s) * 100 < 2 ^ 32"
      and "unat (otaReceived s) * 100 div unat (otaFileSize s) < 256"
  shows "unat (getUpdatePercentage s) =
           (if otaFileSize s = 0 then 0
            else unat (otaReceived s) * 100 div unat (otaFileSize s))"
  using assms by (simp add: unat_getUpdatePercentage)

theorem percentage_floor_witness:
  "unat (otaReceived (initial_session\<lparr>otaFileSize := 200, otaReceived := 50\<rparr>)) * 100 < 2 ^ 32
   \<and> unat (otaReceived (initial_session\<lparr>otaFileSize := 200, otaReceived := 50\<rparr>)) * 100
        div unat (otaFileSize (initial_session\<lparr>otaFileSize := 200, otaReceived := 50\<rparr>)) < 256
   \<and> unat (getUpdatePercentage (initial_session\<lparr>otaFileSize := 200, otaReceived := 50\<rparr>)) = 25
   \<and> unat (getUpdatePercentage initial_session) = 0"
  using percentage_floor [of "initial_session\<lparr>otaFileSize := 200, otaReceived := 50\<rparr>"]
        percentage_floor [of initial_session]
  by (simp add: initial_session_def)

text \<open>A transfer of 42949673 bytes, all received: the product wraps around and the
  percentage reported is 0, not 100.\<close>

theorem percentage_counterexample:
  "otaReceived (run accepting_writer
       [OTA_CMD_OPEN, [0x29, 0x5C, 0x8F, 0x02], replicate 42949673 1] initial_session) = 42949673
   \<and> otaFileSize (run accepting_writer
       [OTA_CMD_OPEN, [0x29, 0x5C, 0x8F, 0x02], replicate 42949673 1] initial_session) = 42949673
   \<and> getUpdatePercentage (run accepting_writer
       [OTA_CMD_OPEN, [0x29, 0x5C, 0x8F, 0x02], replicate 42949673 1] initial_session) = 0
   \<and> unat (getUpdatePercentage (run accepting_writer
       [OTA_CMD_OPEN, [0x29, 0x5C, 0x8F, 0x02], replicate 42949673 1] initial_session))
     \<noteq> unat (otaReceived (run accepting_writer
       [OTA_CMD_OPEN, [0x29, 0x5C, 0x8F, 0x02], replicate 42949673 1] initial_session)) * 100
       div unat (otaFileSize (run accepting_writer
       [OTA_CMD_OPEN, [0x29, 0x5C, 0x8F, 0x02], replicate 42949673 1] initial_session))"
  by (simp add: eval_defs c_str_replicate [unfolded c_str_def])

text \<open>
  \<^bold>\<open>C10.\<close> During a transfer whose size is known, a frame made of the four bytes
  "DONE" is taken as the finalize command: the only call the flash writer receives
  is an \<open>end\<close>, no \<open>write\<close>, and \<open>otaReceived\<close> does not move. Nothing in the frame
  format tells such a chunk of firmware from the command.
\<close>

theorem done_chunk_is_command:
  assumes "otaInProgress s" and "otaFileSize s \<noteq> 0"
  shows "let s' = handleOtaWrite fw OTA_CMD_DONE s in
           (\<exists>c. flashLog s' = flashLog s @ [FwEnd c])
         \<and> (\<forall>d. FwWrite d \<notin> set (drop (length (flashLog s)) (flashLog s')))
         \<and> otaReceived s' = otaReceived s
         \<and> otaStatus s' \<in> {COMPLETED, ERROR}"
  using assms by (auto simp: handleOtaWrite_DONE handleDone_def setOtaStatus_def)

theorem done_chunk_is_command_witness:
  "otaInProgress mid_transfer \<and> otaFileSize mid_transfer \<noteq> 0
   \<and> flashLog (handleOtaWrite accepting_writer OTA_CMD_DONE mid_transfer)
       = [FwBegin 16843009, FwWrite [7, 7, 7], FwEnd False]
   \<and> otaReceived (handleOtaWrite accepting_writer OTA_CMD_DONE mid_transfer) = 3"
  using done_chunk_is_command [of mid_transfer accepting_writer]
  by (simp add: mid_transfer_eq eval_defs)

end
